theory Spec2Isabelle
  imports Main
begin

section \<open>Text and Python values\<close>

text \<open>
  A Python 2 \<^verbatim>\<open>unicode\<close> string is a sequence of code points. The byte strings the
  code produces are ASCII only and compare equal to the unicode string with the same
  code points, so one type serves for both.
\<close>

type_synonym ustring = "nat list"

definition uni :: "string \<Rightarrow> ustring" where
  "uni s = map of_char s"

text \<open>\<^verbatim>\<open>unicode(x)\<close> where \<open>x\<close> is a string or \<^verbatim>\<open>None\<close>: \<^verbatim>\<open>unicode(None) == u'None'\<close>.\<close>

definition unicode :: "ustring option \<Rightarrow> ustring" where
  "unicode x = (case x of None \<Rightarrow> uni ''None'' | Some s \<Rightarrow> s)"

text \<open>\<^verbatim>\<open>key.encode('ascii', 'ignore')\<close>: code points outside ASCII are dropped.\<close>

definition encode_ascii_ignore :: "ustring \<Rightarrow> ustring" where
  "encode_ascii_ignore s = filter (\<lambda>c. c < 128) s"

text \<open>\<^verbatim>\<open>s.split(sep)\<close> for a separator of one character: never the empty list.\<close>

fun split :: "'a \<Rightarrow> 'a list \<Rightarrow> 'a list list" where
  "split sep [] = [[]]"
| "split sep (c # cs) =
     (if c = sep then [] # split sep cs
      else (case split sep cs of
              [] \<Rightarrow> [[c]]
            | w # ws \<Rightarrow> (c # w) # ws))"

text \<open>\<^verbatim>\<open>sep.join(ws)\<close>, which undoes \<open>split\<close>.\<close>

fun join :: "'a \<Rightarrow> 'a list list \<Rightarrow> 'a list" where
  "join sep [] = []"
| "join sep [w] = w"
| "join sep (w # ws) = w @ sep # join sep ws"

section \<open>papers/paper.py\<close>

datatype error =
    InvalidCitekey      \<comment> \<open>\<^verbatim>\<open>ValueError("Invalid citekey: %s" % citekey)\<close>\<close>
  | MissingAuthor       \<comment> \<open>\<^verbatim>\<open>ValueError('No author or editor defined: cannot generate a citekey.')\<close>\<close>
  | MissingCitekey      \<comment> \<open>\<^verbatim>\<open>ValueError('No valid citekey initialized. Cannot save paper')\<close>\<close>
  | NoDocumentFile
  | KeyError
  | IndexError
  | UnboundLocalError
  | AttributeError
  | BibDecodingError
  | IOError

subsection \<open>Constants\<close>

definition DEFAULT_TYPE :: ustring where
  "DEFAULT_TYPE = uni ''article''"

definition CONTROL_CHARS :: ustring where
  "CONTROL_CHARS = [0..<32] @ [127..<160]"

text \<open>The characters \<^verbatim>\<open>@ ' \ , # } { ~ % /\<close>, in the order of the source.\<close>

definition CITEKEY_FORBIDDEN_CHARS :: ustring where
  "CITEKEY_FORBIDDEN_CHARS =
     map of_char [CHR ''@'', CHR 0x27, CHR 0x5C, CHR '','', CHR ''#'',
                  CHR ''}'', CHR ''{'', CHR ''~'', CHR ''%'', CHR ''/'']"

text \<open>
  \<^verbatim>\<open>CITEKEY_EXCLUDE_RE\<close> is the character class of the escaped characters of
  \<^verbatim>\<open>CONTROL_CHARS + CITEKEY_FORBIDDEN_CHARS\<close>: it matches one character of that list.
\<close>

definition CITEKEY_EXCLUDE_RE :: "nat \<Rightarrow> bool" where
  "CITEKEY_EXCLUDE_RE c \<longleftrightarrow> c \<in> set (CONTROL_CHARS @ CITEKEY_FORBIDDEN_CHARS)"

datatype meta_value = MNone | MStr ustring | MList "ustring list"

type_synonym metadata = "(string \<times> meta_value) list"

definition BASE_META :: metadata where
  "BASE_META =
     [(''filename'', MNone), (''extension'', MNone), (''path'', MNone), (''notes'', MList [])]"

subsection \<open>str2citekey\<close>

text \<open>
  \<^verbatim>\<open>unicodedata.normalize('NFKD', _)\<close> belongs to the Python library; it is the
  parameter \<open>nfkd\<close> of the model. Of the library function only one fact is used, and
  only where stated: a string of ASCII characters is its own normal form.
\<close>

definition ascii_stable :: "(ustring \<Rightarrow> ustring) \<Rightarrow> bool" where
  "ascii_stable nfkd \<longleftrightarrow> (\<forall>s. (\<forall>c \<in> set s. c < 128) \<longrightarrow> nfkd s = s)"

definition str2citekey :: "(ustring \<Rightarrow> ustring) \<Rightarrow> ustring option \<Rightarrow> ustring" where
  "str2citekey nfkd s =
     (let key = encode_ascii_ignore (nfkd (unicode s));
          key = filter (\<lambda>c. \<not> CITEKEY_EXCLUDE_RE c) key
      in key)"

subsection \<open>pybtex entries\<close>

text \<open>
  \<^verbatim>\<open>pybtex.database.Person\<close> holds the parts of a name as lists of strings;
  \<^verbatim>\<open>Entry\<close> has a type, a dictionary of fields and a dictionary from a role to the
  list of its persons.
\<close>

record person =
  first_names :: "ustring list"
  middle_names :: "ustring list"
  prelast_names :: "ustring list"
  last_names :: "ustring list"
  lineage_names :: "ustring list"

record Entry =
  entry_type :: ustring
  entry_fields :: "string \<rightharpoonup> ustring"
  entry_persons :: "string \<rightharpoonup> person list"

definition Entry_init :: "ustring \<Rightarrow> Entry" where
  "Entry_init t = \<lparr>entry_type = t, entry_fields = Map.empty, entry_persons = Map.empty\<rparr>"

subsection \<open>class Paper\<close>

record Paper =
  bibentry :: Entry
  metadata :: metadata
  citekey :: "ustring option"

definition create_meta :: metadata where
  "create_meta = BASE_META"

text \<open>
  \<^verbatim>\<open>Paper.__init__\<close>. \<^verbatim>\<open>not bibentry\<close> holds of \<^verbatim>\<open>None\<close> only (an \<^verbatim>\<open>Entry\<close> object is
  always true), \<^verbatim>\<open>not metadata\<close> of \<^verbatim>\<open>None\<close> and of the empty dictionary.
\<close>

definition Paper_init ::
  "(ustring \<Rightarrow> ustring) \<Rightarrow> Entry option \<Rightarrow> metadata option \<Rightarrow> ustring option \<Rightarrow> error + Paper" where
  "Paper_init nfkd bibentry0 metadata0 citekey0 =
     (let bibentry1 = (case bibentry0 of None \<Rightarrow> Entry_init DEFAULT_TYPE | Some b \<Rightarrow> b);
          metadata1 = (case metadata0 of
                         None \<Rightarrow> create_meta
                       | Some m \<Rightarrow> if m = [] then create_meta else m)
      in if unicode citekey0 \<noteq> str2citekey nfkd citekey0 then Inl InvalidCitekey
         else Inr \<lparr>bibentry = bibentry1, metadata = metadata1, citekey = citekey0\<rparr>)"

text \<open>\<^verbatim>\<open>has_file\<close> and \<^verbatim>\<open>get_file_path\<close>; a missing key \<^verbatim>\<open>'path'\<close> raises \<^verbatim>\<open>KeyError\<close>.\<close>

definition has_file :: "Paper \<Rightarrow> error + bool" where
  "has_file p = (case map_of (metadata p) ''path'' of
                   None \<Rightarrow> Inl KeyError
                 | Some v \<Rightarrow> Inr (v \<noteq> MNone))"

definition get_file_path :: "Paper \<Rightarrow> error + meta_value" where
  "get_file_path p =
     (case has_file p of
        Inl e \<Rightarrow> Inl e
      | Inr True \<Rightarrow> (case map_of (metadata p) ''path'' of
                       None \<Rightarrow> Inl KeyError | Some v \<Rightarrow> Inr v)
      | Inr False \<Rightarrow> Inl NoDocumentFile)"

text \<open>
  \<^verbatim>\<open>generate_citekey\<close>. \<^verbatim>\<open>persons[author_key]\<close> raises \<^verbatim>\<open>KeyError\<close> when the role is
  missing, and \<^verbatim>\<open>[0]\<close> raises \<^verbatim>\<open>IndexError\<close> on an empty list; the \<^verbatim>\<open>except\<close> clause names
  \<^verbatim>\<open>KeyError\<close> only.
\<close>

definition generate_citekey :: "(ustring \<Rightarrow> ustring) \<Rightarrow> Paper \<Rightarrow> error + ustring" where
  "generate_citekey nfkd p =
     (let author_key = (if entry_persons (bibentry p) ''author'' = None then ''editor'' else ''author'')
      in case entry_persons (bibentry p) author_key of
           None \<Rightarrow> Inl MissingAuthor
         | Some [] \<Rightarrow> Inl IndexError
         | Some (first_author # _) \<Rightarrow>
             (let year = (case entry_fields (bibentry p) ''year'' of None \<Rightarrow> [] | Some y \<Rightarrow> y);
                  citekey1 = concat (last_names first_author) @ year
              in Inr (str2citekey nfkd (Some citekey1))))"

text \<open>
  \<^verbatim>\<open>save_to_disc\<close>. The module \<^verbatim>\<open>files\<close> is a collaborator: its two writers are
  parameters that act on the state \<open>'d\<close> of the disc and may raise. The disc changes
  through them only.
\<close>

record 'd files =
  save_bibdata :: "(ustring \<times> Entry) list \<Rightarrow> ustring \<Rightarrow> 'd \<Rightarrow> error option \<times> 'd"
  save_meta :: "metadata \<Rightarrow> ustring \<Rightarrow> 'd \<Rightarrow> error option \<times> 'd"

definition save_to_disc ::
  "'d files \<Rightarrow> Paper \<Rightarrow> ustring \<Rightarrow> ustring \<Rightarrow> 'd \<Rightarrow> (error + unit) \<times> 'd" where
  "save_to_disc fs p bib_filepath meta_filepath d =
     (case citekey p of
        None \<Rightarrow> (Inl MissingCitekey, d)
      | Some k \<Rightarrow>
          (let bibdata = [(k, bibentry p)]
           in case save_bibdata fs bibdata bib_filepath d of
                (Some e, d1) \<Rightarrow> (Inl e, d1)
              | (None, d1) \<Rightarrow>
                  (case save_meta fs (metadata p) meta_filepath d1 of
                     (Some e, d2) \<Rightarrow> (Inl e, d2)
                   | (None, d2) \<Rightarrow> (Inr (), d2))))"

text \<open>
  \<^verbatim>\<open>get_document_file_from_bibdata\<close>. The loop leaves in \<open>f\<close> the first candidate that
  is not empty, or the last candidate when all are empty; \<open>f\<close> is unbound only if the
  loop body never runs. Then the field is popped if \<open>remove\<close> is set, and only then is
  \<^verbatim>\<open>f[0]\<close> read. \<^verbatim>\<open>KeyError\<close> and \<^verbatim>\<open>IndexError\<close> become \<^verbatim>\<open>NoDocumentFile\<close>.
\<close>

definition colon :: nat where
  "colon = of_char CHR '':''"

definition slash :: nat where
  "slash = of_char CHR ''/''"

fun for_break :: "ustring list \<Rightarrow> ustring option \<Rightarrow> ustring option" where
  "for_break [] f = f"
| "for_break (x # xs) f = (if length x > 0 then Some x else for_break xs (Some x))"

definition pop_file :: "Paper \<Rightarrow> Paper" where
  "pop_file p =
     p\<lparr>bibentry := (bibentry p)\<lparr>entry_fields := (entry_fields (bibentry p))(''file'' := None)\<rparr>\<rparr>"

definition get_document_file_from_bibdata :: "Paper \<Rightarrow> bool \<Rightarrow> (error + ustring) \<times> Paper" where
  "get_document_file_from_bibdata p remove =
     (case entry_fields (bibentry p) ''file'' of
        None \<Rightarrow> (Inl NoDocumentFile, p)
      | Some field \<Rightarrow>
          (let f = for_break (split colon field) None;
               p1 = (if remove then pop_file p else p)
           in case f of
                None \<Rightarrow> (Inl UnboundLocalError, p1)
              | Some [] \<Rightarrow> (Inl NoDocumentFile, p1)
              | Some (c # cs) \<Rightarrow> (Inr (if c \<noteq> slash then slash # c # cs else c # cs), p1)))"

subsection \<open>What the specification says of the embedded document\<close>

text \<open>
  The candidates are the pieces of the field between colons; the first one that is not
  empty is chosen, and a path separator is put in front of it unless it starts with one.
\<close>

definition extractEmbeddedDocument_spec :: "ustring option \<Rightarrow> error + ustring" where
  "extractEmbeddedDocument_spec file =
     (case file of
        None \<Rightarrow> Inl NoDocumentFile
      | Some field \<Rightarrow>
          (case find (\<lambda>c. c \<noteq> []) (split colon field) of
             None \<Rightarrow> Inl NoDocumentFile
           | Some c \<Rightarrow> Inr (if hd c = slash then c else slash # c)))"

subsection \<open>Values to run the model on\<close>

text \<open>
  A fragment of the decomposition table: U+00E9 is \<open>e\<close> with a combining acute accent,
  U+2122 is \<open>TM\<close>; every other code point is kept.
\<close>

definition decompose :: "nat \<Rightarrow> ustring" where
  "decompose c = (if c = 233 then [101, 769] else if c = 8482 then [84, 77] else [c])"

definition nfkd_fragment :: "ustring \<Rightarrow> ustring" where
  "nfkd_fragment s = concat (map decompose s)"

definition entry0 :: Entry where
  "entry0 = Entry_init DEFAULT_TYPE"

text \<open>A disc that is the list of the paths written to.\<close>

definition files_log :: "(ustring list) files" where
  "files_log = \<lparr>save_bibdata = (\<lambda>bibdata path d. (None, d @ [path])),
                save_meta = (\<lambda>meta path d. (None, d @ [path]))\<rparr>"

section \<open>pubs/commands/add_cmd.py\<close>

subsection \<open>Arguments, collaborators and the world\<close>

record args =
  args_bibfile :: "ustring option"
  args_doi :: "ustring option"
  args_isbn :: "ustring option"
  args_docfile :: "ustring option"
  args_tags :: "ustring option"
  args_citekey :: "ustring option"
  args_doc_add :: "ustring option"

text \<open>What the user interface is asked to show.\<close>

datatype ui_text =
    InvalidDoi ustring          \<comment> \<open>\<^verbatim>\<open>'invalid doi {} or unable to retrieve bibfile from it.'\<close>\<close>
  | InvalidIsbn ustring         \<comment> \<open>\<^verbatim>\<open>'invalid isbn {} or unable to retrieve bibfile from it.'\<close>\<close>
  | InvalidBibfile ustring      \<comment> \<open>\<^verbatim>\<open>'invalid bibfile {}.'\<close>\<close>
  | CitekeyExists ustring       \<comment> \<open>\<^verbatim>\<open>'citekey already exist {}.'\<close>\<close>
  | NotEdited                   \<comment> \<open>\<^verbatim>\<open>'Bibfile not edited. Edit again ?'\<close>\<close>
  | InvalidEdit                 \<comment> \<open>\<^verbatim>\<open>'Invalid bibfile. Edit again?'\<close>\<close>
  | SkippingDocfile ustring ustring
  | AddedToPubs Paper
  | WasMoved ustring
  | WasCopied ustring

text \<open>The calls that reach outside the command, in the order they are made.\<close>

datatype event =
    Doi2bibtex ustring
  | Isbn2bibtex ustring
  | GetContent ustring
  | EditorInput ustring
  | InputYN ui_text
  | UiError ui_text
  | UiWarning ui_text
  | UiMessage ui_text
  | PushPaper Paper
  | PushDoc "ustring option" ustring bool
  | RemoveFile ustring
  | RpClose

text \<open>
  The modules the command imports are collaborators. Their functions are parameters;
  each may raise, and \<open>verify\<close> may also return \<^verbatim>\<open>None\<close>, which is what the command
  tests for. \<open>rp_papers\<close> of the world is the content of the repository; the attribute
  \<^verbatim>\<open>tags\<close> that the command assigns on the paper object is kept beside the paper.
\<close>

record env =
  normalize :: "ustring \<Rightarrow> ustring"
  add_bib :: ustring
  doi2bibtex :: "ustring \<Rightarrow> error + ustring"
  isbn2bibtex :: "ustring \<Rightarrow> error + ustring"
  get_content :: "ustring \<Rightarrow> error + ustring"
  verify :: "ustring \<Rightarrow> error + Entry option"
  verify_bibdata :: "Entry option \<Rightarrow> error option"
  extract_citekey :: "Entry option \<Rightarrow> error + ustring"
  unique_citekey :: "(Paper \<times> ustring set option) list \<Rightarrow> ustring \<Rightarrow> ustring"
  extract_docfile :: "Entry option \<Rightarrow> error + ustring option"
  content_type :: "ustring \<Rightarrow> ustring"
  conf_main_doc_add :: ustring
  exit_default :: nat

record world =
  rp_papers :: "(Paper \<times> ustring set option) list"
  trace :: "event list"

definition emit :: "event \<Rightarrow> world \<Rightarrow> world" where
  "emit e w = w\<lparr>trace := trace w @ [e]\<rparr>"

text \<open>
  Modelled from the spec: the user interface of \<^verbatim>\<open>pubs/uis.py\<close> is missing; by section 6
  \<open>reportError\<close>, \<open>reportWarning\<close> and \<open>reportInfo\<close> show a text and return, and
  \<open>exitProcess(code)\<close> ends the process with that status.

  How a run ends: it returns, the process exits through \<^verbatim>\<open>ui.exit(code)\<close>, an exception
  reaches the top (the interpreter prints it and exits with status 1), or the run waits
  for the user for ever.
\<close>

datatype 'a outcome = Ok 'a | SysExit nat | Uncaught error | Blocked

definition exit_status :: "'a outcome \<Rightarrow> nat option" where
  "exit_status r = (case r of
                      Ok x \<Rightarrow> Some 0
                    | SysExit n \<Rightarrow> Some n
                    | Uncaught e \<Rightarrow> Some 1
                    | Blocked \<Rightarrow> None)"

text \<open>
  Modelled from the spec: \<^verbatim>\<open>Repository.__contains__\<close> and \<^verbatim>\<open>push_paper\<close> of
  \<^verbatim>\<open>pubs/repo.py\<close> are missing; section 6 has \<open>contains(citekey)\<close> and
  \<open>pushPaper(Paper)\<close>.
\<close>

definition rp_contains :: "(Paper \<times> ustring set option) list \<Rightarrow> ustring \<Rightarrow> bool" where
  "rp_contains rp k \<longleftrightarrow> Some k \<in> set (map (\<lambda>(p, t). citekey p) rp)"

definition push_paper :: "Paper \<times> ustring set option \<Rightarrow> world \<Rightarrow> world" where
  "push_paper pt w = emit (PushPaper (fst pt)) (w\<lparr>rp_papers := rp_papers w @ [pt]\<rparr>)"

text \<open>
  Modelled from the spec: \<^verbatim>\<open>Paper.from_bibentry\<close> of \<^verbatim>\<open>pubs/paper.py\<close> is missing; by
  sections 3 and 4.2 the add path constructs the Paper from the decoded entry and the
  resolved citekey, with the default metadata, and the construction fails with
  \<open>InvalidCitekey\<close> if the citekey is not its own sanitized form.
\<close>

definition from_bibentry :: "env \<Rightarrow> Entry option \<Rightarrow> ustring \<Rightarrow> error + Paper" where
  "from_bibentry env bibentry0 citekey0 = Paper_init (normalize env) bibentry0 None (Some citekey0)"

subsection \<open>bibentry\_from\_editor\<close>

text \<open>
  The loop has no bound: it ends when the edited text decodes or when the user declines
  to edit again. The user is a script of rounds, each the text that comes back from the
  editor and the answer to the question that may follow; when the script is used up the
  run is waiting for the user.
\<close>

record user_round =
  edited :: ustring
  answer :: bool

definition ask_again ::
  "env \<Rightarrow> ui_text \<Rightarrow> nat \<Rightarrow> bool \<Rightarrow> world \<Rightarrow> (world \<Rightarrow> Entry option outcome \<times> world)
    \<Rightarrow> Entry option outcome \<times> world" where
  "ask_again env question code again w continue =
     (let w1 = emit (InputYN question) w
      in if again then continue w1 else (SysExit code, w1))"

fun bibentry_from_editor ::
  "env \<Rightarrow> ustring \<Rightarrow> user_round list \<Rightarrow> world \<Rightarrow> Entry option outcome \<times> world" where
  "bibentry_from_editor env bibstr [] w = (Blocked, w)"
| "bibentry_from_editor env bibstr (r # rs) w =
     (let w1 = emit (EditorInput bibstr) w;
          bibstr1 = edited r
      in if bibstr1 = add_bib env
         then ask_again env NotEdited 0 (answer r) w1 (bibentry_from_editor env bibstr1 rs)
         else (case verify env bibstr1 of
                 Inl e \<Rightarrow>
                   if e = BibDecodingError
                   then ask_again env InvalidEdit (exit_default env) (answer r) w1
                          (bibentry_from_editor env bibstr1 rs)
                   else (Uncaught e, w1)
               | Inr bibentry1 \<Rightarrow>
                   (case verify_bibdata env bibentry1 of
                      Some e \<Rightarrow>
                        if e = BibDecodingError
                        then ask_again env InvalidEdit (exit_default env) (answer r) w1
                               (bibentry_from_editor env bibstr1 rs)
                        else (Uncaught e, w1)
                    | None \<Rightarrow> (Ok bibentry1, w1))))"

subsection \<open>command: get bibtex entry (lines 85 to 108)\<close>

text \<open>
  The block under \<^verbatim>\<open>if args.doi is not None\<close>. When the lookup does not decode, the
  error is shown and the process exits only if there is no ISBN; the value handed on is
  the binding of \<^verbatim>\<open>bibentry\<close> (\<open>None\<close> also while it is not bound yet: then the ISBN
  block binds it).
\<close>

definition doi_block :: "env \<Rightarrow> args \<Rightarrow> world \<Rightarrow> Entry option outcome \<times> world" where
  "doi_block env a w =
     (case args_doi a of
        None \<Rightarrow> (Ok None, w)
      | Some doi \<Rightarrow>
          (let w1 = emit (Doi2bibtex doi) w
           in case doi2bibtex env doi of
                Inl e \<Rightarrow> (Uncaught e, w1)
              | Inr bibentry_raw \<Rightarrow>
                  (case verify env bibentry_raw of
                     Inl e \<Rightarrow> (Uncaught e, w1)
                   | Inr None \<Rightarrow>
                       (let w2 = emit (UiError (InvalidDoi doi)) w1
                        in if args_isbn a = None then (SysExit 1, w2) else (Ok None, w2))
                   | Inr (Some b) \<Rightarrow> (Ok (Some b), w1))))"

text \<open>
  The block under \<^verbatim>\<open>if args.isbn is not None\<close>, which follows the DOI block whatever
  that one found.
\<close>

definition isbn_block ::
  "env \<Rightarrow> args \<Rightarrow> Entry option \<Rightarrow> world \<Rightarrow> Entry option outcome \<times> world" where
  "isbn_block env a bibentry0 w =
     (case args_isbn a of
        None \<Rightarrow> (Ok bibentry0, w)
      | Some isbn \<Rightarrow>
          (let w1 = emit (Isbn2bibtex isbn) w
           in case isbn2bibtex env isbn of
                Inl e \<Rightarrow> (Uncaught e, w1)
              | Inr bibentry_raw \<Rightarrow>
                  (case verify env bibentry_raw of
                     Inl e \<Rightarrow> (Uncaught e, w1)
                   | Inr None \<Rightarrow> (SysExit 1, emit (UiError (InvalidIsbn isbn)) w1)
                   | Inr (Some b) \<Rightarrow> (Ok (Some b), w1))))"

text \<open>The \<^verbatim>\<open>else\<close> branch of \<^verbatim>\<open>if bibfile is None\<close>: the error is shown, nothing more.\<close>

definition bibfile_block :: "env \<Rightarrow> ustring \<Rightarrow> world \<Rightarrow> Entry option outcome \<times> world" where
  "bibfile_block env bibfile w =
     (let w1 = emit (GetContent bibfile) w
      in case get_content env bibfile of
           Inl e \<Rightarrow> (Uncaught e, w1)
         | Inr bibentry_raw \<Rightarrow>
             (case verify env bibentry_raw of
                Inl e \<Rightarrow> (Uncaught e, w1)
              | Inr None \<Rightarrow> (Ok None, emit (UiError (InvalidBibfile bibfile)) w1)
              | Inr (Some b) \<Rightarrow> (Ok (Some b), w1)))"

definition get_bibtex_entry ::
  "env \<Rightarrow> args \<Rightarrow> user_round list \<Rightarrow> world \<Rightarrow> Entry option outcome \<times> world" where
  "get_bibtex_entry env a script w =
     (case args_bibfile a of
        None \<Rightarrow>
          if args_doi a = None \<and> args_isbn a = None
          then bibentry_from_editor env (add_bib env) script w
          else (case doi_block env a w of
                  (Ok bibentry1, w1) \<Rightarrow> isbn_block env a bibentry1 w1
                | (SysExit n, w1) \<Rightarrow> (SysExit n, w1)
                | (Uncaught e, w1) \<Rightarrow> (Uncaught e, w1)
                | (Blocked, w1) \<Rightarrow> (Blocked, w1))
      | Some bibfile \<Rightarrow> bibfile_block env bibfile w)"

subsection \<open>command: citekey (lines 112 to 120)\<close>

definition resolve_citekey ::
  "env \<Rightarrow> args \<Rightarrow> Entry option \<Rightarrow> world \<Rightarrow> ustring outcome \<times> world" where
  "resolve_citekey env a bibentry0 w =
     (case args_citekey a of
        None \<Rightarrow>
          (case extract_citekey env bibentry0 of
             Inl e \<Rightarrow> (Uncaught e, w)
           | Inr base_key \<Rightarrow> (Ok (unique_citekey env (rp_papers w) base_key), w))
      | Some k \<Rightarrow>
          if rp_contains (rp_papers w) k
          then (SysExit 1, emit (UiError (CitekeyExists k)) w)
          else (Ok k, w))"

subsection \<open>command: tags, document file, create the paper (lines 122 to 153)\<close>

definition comma :: nat where
  "comma = of_char CHR '',''"

definition push_doc_block :: "env \<Rightarrow> Paper \<Rightarrow> ustring \<Rightarrow> ustring \<Rightarrow> world \<Rightarrow> world" where
  "push_doc_block env p docfile doc_add w =
     (let w1 = emit (PushDoc (citekey p) docfile (doc_add \<in> {uni ''copy'', uni ''move''})) w;
          w2 = (if doc_add = uni ''move'' \<and> content_type env docfile \<noteq> uni ''url''
                then emit (RemoveFile docfile) w1 else w1)
      in if doc_add = uni ''move'' then emit (UiMessage (WasMoved docfile)) w2
         else if doc_add = uni ''copy'' then emit (UiMessage (WasCopied docfile)) w2
         else w2)"

definition create_the_paper ::
  "env \<Rightarrow> args \<Rightarrow> Entry option \<Rightarrow> Paper \<Rightarrow> world \<Rightarrow> unit outcome \<times> world" where
  "create_the_paper env a bibentry0 p w =
     (let tags = (case args_tags a of None \<Rightarrow> None | Some t \<Rightarrow> Some (set (split comma t)))
      in case extract_docfile env bibentry0 of
           Inl e \<Rightarrow> (Uncaught e, w)
         | Inr bib_docfile \<Rightarrow>
             (let w1 = (case (args_docfile a, bib_docfile) of
                          (Some d, Some b) \<Rightarrow> emit (UiWarning (SkippingDocfile b d)) w
                        | _ \<Rightarrow> w);
                  docfile = (case args_docfile a of None \<Rightarrow> bib_docfile | Some d \<Rightarrow> Some d);
                  doc_add = (case args_doc_add a of None \<Rightarrow> conf_main_doc_add env | Some m \<Rightarrow> m);
                  w2 = push_paper (p, tags) w1;
                  w3 = emit (UiMessage (AddedToPubs p)) w2;
                  w4 = (case docfile of None \<Rightarrow> w3 | Some d \<Rightarrow> push_doc_block env p d doc_add w3)
              in (Ok (), emit RpClose w4)))"

subsection \<open>command\<close>

definition command :: "env \<Rightarrow> args \<Rightarrow> user_round list \<Rightarrow> world \<Rightarrow> unit outcome \<times> world" where
  "command env a script w =
     (case get_bibtex_entry env a script w of
        (SysExit n, w1) \<Rightarrow> (SysExit n, w1)
      | (Uncaught e, w1) \<Rightarrow> (Uncaught e, w1)
      | (Blocked, w1) \<Rightarrow> (Blocked, w1)
      | (Ok bibentry1, w1) \<Rightarrow>
          (case resolve_citekey env a bibentry1 w1 of
             (SysExit n, w2) \<Rightarrow> (SysExit n, w2)
           | (Uncaught e, w2) \<Rightarrow> (Uncaught e, w2)
           | (Blocked, w2) \<Rightarrow> (Blocked, w2)
           | (Ok k, w2) \<Rightarrow>
               (case from_bibentry env bibentry1 k of
                  Inl e \<Rightarrow> (Uncaught e, w2)
                | Inr p \<Rightarrow> create_the_paper env a bibentry1 p w2)))"

subsection \<open>Collaborators to run the command on\<close>

definition entry_doi :: Entry where
  "entry_doi = \<lparr>entry_type = uni ''article'',
                 entry_fields = [''year'' \<mapsto> uni ''2021''],
                 entry_persons = Map.empty\<rparr>"

definition entry_isbn :: Entry where
  "entry_isbn = \<lparr>entry_type = uni ''book'',
                  entry_fields = [''year'' \<mapsto> uni ''1999''],
                  entry_persons = Map.empty\<rparr>"

text \<open>
  The lookups answer with the text \<open>doi\<close> or \<open>isbn\<close>; \<open>verify\<close> decodes \<open>doi\<close> to
  \<open>entry_doi\<close>, \<open>isbn\<close> to \<open>entry_isbn\<close> and nothing else; the content of every file is
  \<open>garbage\<close>.
\<close>

definition env0 :: env where
  "env0 = \<lparr>normalize = nfkd_fragment,
           add_bib = uni ''@article{}'',
           doi2bibtex = (\<lambda>d. Inr (uni ''doi'')),
           isbn2bibtex = (\<lambda>i. Inr (uni ''isbn'')),
           get_content = (\<lambda>f. Inr (uni ''garbage'')),
           verify = (\<lambda>raw. Inr (if raw = uni ''doi'' then Some entry_doi
                                 else if raw = uni ''isbn'' then Some entry_isbn
                                 else None)),
           verify_bibdata = (\<lambda>b. None),
           extract_citekey = (\<lambda>b. case b of None \<Rightarrow> Inl AttributeError | Some e \<Rightarrow> Inr (uni ''key'')),
           unique_citekey = (\<lambda>rp k. k),
           extract_docfile = (\<lambda>b. Inr None),
           content_type = (\<lambda>d. uni ''file''),
           conf_main_doc_add = uni ''copy'',
           exit_default = 1\<rparr>"

definition args0 :: args where
  "args0 = \<lparr>args_bibfile = None, args_doi = None, args_isbn = None, args_docfile = None,
            args_tags = None, args_citekey = None, args_doc_add = None\<rparr>"

definition world0 :: world where
  "world0 = \<lparr>rp_papers = [], trace = []\<rparr>"

section \<open>Helper lemmas\<close>

subsection \<open>Strings\<close>

lemma uni_Nil: "uni [] = []"
  by (simp add: uni_def)

lemma uni_Cons: "uni (c # cs) = of_char c # uni cs"
  by (simp add: uni_def)

lemma split_not_Nil: "split sep s \<noteq> []"
  by (induction s) (auto split: list.splits)

lemma split_no_sep: "w \<in> set (split sep s) \<Longrightarrow> sep \<notin> set w"
  by (induction s arbitrary: w) (auto split: list.splits if_splits)

lemma join_split: "join sep (split sep s) = s"
proof (induction s)
  case Nil
  show ?case by simp
next
  case (Cons c s)
  obtain w ws where ws: "split sep s = w # ws"
    using split_not_Nil[of sep s] by (cases "split sep s") auto
  show ?case using Cons ws by (cases ws) auto
qed

subsection \<open>The sanitizer\<close>

lemma CONTROL_CHARS_iff: "c \<in> set CONTROL_CHARS \<longleftrightarrow> c < 32 \<or> (127 \<le> c \<and> c < 160)"
  by (simp only: CONTROL_CHARS_def set_append set_upt Un_iff atLeastLessThan_iff) auto

lemma FORBIDDEN_set:
  "set CITEKEY_FORBIDDEN_CHARS = {64, 39, 92, 44, 35, 125, 123, 126, 37, 47}"
  by (simp add: CITEKEY_FORBIDDEN_CHARS_def)

lemma CITEKEY_EXCLUDE_RE_iff:
  "CITEKEY_EXCLUDE_RE c \<longleftrightarrow>
     c < 32 \<or> (127 \<le> c \<and> c < 160) \<or> c \<in> {64, 39, 92, 44, 35, 125, 123, 126, 37, 47}"
  by (simp only: CITEKEY_EXCLUDE_RE_def set_append Un_iff CONTROL_CHARS_iff FORBIDDEN_set) auto

lemma str2citekey_set:
  "c \<in> set (str2citekey nfkd s) \<Longrightarrow> c < 128 \<and> \<not> CITEKEY_EXCLUDE_RE c"
  by (auto simp: str2citekey_def encode_ascii_ignore_def Let_def)

lemma str2citekey_fixed:
  assumes "ascii_stable nfkd" and "\<forall>c \<in> set (unicode s). c < 128 \<and> \<not> CITEKEY_EXCLUDE_RE c"
  shows "str2citekey nfkd s = unicode s"
proof -
  have "nfkd (unicode s) = unicode s"
    using assms by (simp add: ascii_stable_def)
  then show ?thesis
    using assms(2) by (simp add: str2citekey_def encode_ascii_ignore_def filter_id_conv)
qed

lemma nfkd_fragment_stable: "ascii_stable nfkd_fragment"
proof -
  have "(\<forall>c \<in> set s. c < 128) \<Longrightarrow> nfkd_fragment s = s" for s
    by (induction s) (auto simp: nfkd_fragment_def decompose_def)
  then show ?thesis by (simp add: ascii_stable_def)
qed

lemma str2citekey_decomposes:
  "str2citekey nfkd_fragment (Some ([233, 8482, 64] @ uni ''x/y'')) = uni ''eTMxy''"
  by (simp add: str2citekey_def unicode_def encode_ascii_ignore_def nfkd_fragment_def
      decompose_def CITEKEY_EXCLUDE_RE_iff uni_def)

subsection \<open>The citekey generator\<close>

lemma generate_citekey_no_list:
  "entry_persons (bibentry p) ''author'' = None \<Longrightarrow> entry_persons (bibentry p) ''editor'' = None
    \<Longrightarrow> generate_citekey nfkd p = Inl MissingAuthor"
  by (simp add: generate_citekey_def)

lemma generate_citekey_author:
  "entry_persons (bibentry p) ''author'' = Some (a # as)
    \<Longrightarrow> generate_citekey nfkd p =
          Inr (str2citekey nfkd (Some (concat (last_names a) @
                 (case entry_fields (bibentry p) ''year'' of None \<Rightarrow> [] | Some y \<Rightarrow> y))))"
  by (simp add: generate_citekey_def)

lemma generate_citekey_editor:
  "entry_persons (bibentry p) ''author'' = None
    \<Longrightarrow> entry_persons (bibentry p) ''editor'' = Some (a # as)
    \<Longrightarrow> generate_citekey nfkd p =
          Inr (str2citekey nfkd (Some (concat (last_names a) @
                 (case entry_fields (bibentry p) ''year'' of None \<Rightarrow> [] | Some y \<Rightarrow> y))))"
  by (simp add: generate_citekey_def)

lemma generate_citekey_Smith2020:
  "generate_citekey nfkd_fragment
     \<lparr>bibentry = \<lparr>entry_type = DEFAULT_TYPE,
                  entry_fields = [''year'' \<mapsto> uni ''2020''],
                  entry_persons = [''author'' \<mapsto> [\<lparr>first_names = [uni ''Ann''], middle_names = [],
                     prelast_names = [], last_names = [uni ''Smith''], lineage_names = []\<rparr>]]\<rparr>,
      metadata = BASE_META, citekey = None\<rparr>
   = Inr (uni ''Smith2020'')"
  by (simp add: generate_citekey_def str2citekey_def unicode_def encode_ascii_ignore_def
      nfkd_fragment_def decompose_def CITEKEY_EXCLUDE_RE_iff uni_def)

subsection \<open>The embedded document\<close>

lemma for_break_find:
  "for_break xs f = (case find (\<lambda>c. c \<noteq> []) xs of
                       Some c \<Rightarrow> Some c
                     | None \<Rightarrow> (if xs = [] then f else Some []))"
  by (induction xs arbitrary: f) (auto split: option.splits)

lemma get_document_file_refines:
  "fst (get_document_file_from_bibdata p remove) =
     extractEmbeddedDocument_spec (entry_fields (bibentry p) ''file'')"
proof (cases "entry_fields (bibentry p) ''file''")
  case None
  then show ?thesis
    by (simp add: get_document_file_from_bibdata_def extractEmbeddedDocument_spec_def)
next
  case field: (Some field)
  show ?thesis
  proof (cases "find (\<lambda>c. c \<noteq> []) (split colon field)")
    case None
    then show ?thesis using field
      by (simp add: get_document_file_from_bibdata_def extractEmbeddedDocument_spec_def Let_def
          for_break_find split_not_Nil)
  next
    case (Some c)
    then have "c \<noteq> []" by (auto simp: find_Some_iff)
    then obtain x xs where "c = x # xs" by (cases c) auto
    then show ?thesis using Some field
      by (simp add: get_document_file_from_bibdata_def extractEmbeddedDocument_spec_def Let_def
          for_break_find)
  qed
qed

lemma find_nonempty_None: "find (\<lambda>c. c \<noteq> []) xs = None \<longleftrightarrow> (\<forall>c \<in> set xs. c = [])"
  by (induction xs) auto

subsection \<open>The add command\<close>

lemma bibentry_from_editor_rp:
  "rp_papers (snd (bibentry_from_editor env bibstr script w)) = rp_papers w"
  by (induction env bibstr script w rule: bibentry_from_editor.induct)
     (auto simp: Let_def ask_again_def emit_def split: sum.splits option.splits)

lemma get_bibtex_entry_rp:
  "rp_papers (snd (get_bibtex_entry env a script w)) = rp_papers w"
  by (auto simp: get_bibtex_entry_def doi_block_def isbn_block_def bibfile_block_def
      bibentry_from_editor_rp Let_def emit_def
      split: sum.splits option.splits outcome.splits prod.splits)

lemmas run_defs = get_bibtex_entry_def doi_block_def isbn_block_def bibfile_block_def
  resolve_citekey_def env0_def args0_def world0_def emit_def uni_def Let_def rp_contains_def

section \<open>The claims\<close>

text \<open>
  C5. With a normalizer that leaves ASCII strings alone, the sanitizer is idempotent, and
  its result holds no control character (code points 0 to 31 and 127 to 159) and none
  of the forbidden characters.
\<close>

theorem str2citekey_idempotent_clean:
  assumes "ascii_stable nfkd"
  shows "str2citekey nfkd (Some (str2citekey nfkd s)) = str2citekey nfkd s \<and>
         (\<forall>c \<in> set (str2citekey nfkd s).
            c \<notin> {0..31} \<union> {127..159} \<and> c \<notin> set CONTROL_CHARS \<and>
            c \<notin> set CITEKEY_FORBIDDEN_CHARS)"
proof
  let ?k = "str2citekey nfkd s"
  have "\<forall>c \<in> set (unicode (Some ?k)). c < 128 \<and> \<not> CITEKEY_EXCLUDE_RE c"
    using str2citekey_set[of _ nfkd s] by (simp add: unicode_def)
  from str2citekey_fixed[OF assms this]
  show "str2citekey nfkd (Some ?k) = ?k" by (simp add: unicode_def)
next
  show "\<forall>c \<in> set (str2citekey nfkd s).
          c \<notin> {0..31} \<union> {127..159} \<and> c \<notin> set CONTROL_CHARS \<and> c \<notin> set CITEKEY_FORBIDDEN_CHARS"
  proof
    fix c assume "c \<in> set (str2citekey nfkd s)"
    then have "\<not> CITEKEY_EXCLUDE_RE c" using str2citekey_set by blast
    then show "c \<notin> {0..31} \<union> {127..159} \<and> c \<notin> set CONTROL_CHARS \<and>
               c \<notin> set CITEKEY_FORBIDDEN_CHARS"
      unfolding CITEKEY_EXCLUDE_RE_iff CONTROL_CHARS_iff FORBIDDEN_set by auto
  qed
qed

theorem str2citekey_idempotent_clean_witness:
  "ascii_stable nfkd_fragment \<and>
   str2citekey nfkd_fragment (Some (uni ''a@b'')) = uni ''ab'' \<and>
   str2citekey nfkd_fragment (Some (str2citekey nfkd_fragment (Some (uni ''a@b''))))
     = str2citekey nfkd_fragment (Some (uni ''a@b'')) \<and>
   97 \<in> set (str2citekey nfkd_fragment (Some (uni ''a@b''))) \<and>
   97 \<notin> {0..31::nat} \<union> {127..159} \<and> 97 \<notin> set CONTROL_CHARS \<and>
   97 \<notin> set CITEKEY_FORBIDDEN_CHARS"
proof -
  have k: "str2citekey nfkd_fragment (Some (uni ''a@b'')) = uni ''ab''"
    by (simp add: str2citekey_def unicode_def encode_ascii_ignore_def nfkd_fragment_def
        decompose_def CITEKEY_EXCLUDE_RE_iff uni_def)
  have m: "97 \<in> set (str2citekey nfkd_fragment (Some (uni ''a@b'')))"
    unfolding k by (simp add: uni_def)
  show ?thesis
    using str2citekey_idempotent_clean[OF nfkd_fragment_stable, of "Some (uni ''a@b'')"]
      nfkd_fragment_stable k m
    by blast
qed

text \<open>
  C6. Constructing a Paper with a citekey fails with InvalidCitekey exactly when the
  citekey differs from its sanitized form, and succeeds otherwise; \<open>a@b\<close> fails and
  \<open>ab2020\<close> succeeds.
\<close>

theorem Paper_init_invalid_citekey:
  assumes "ascii_stable nfkd"
  shows "((Paper_init nfkd be md (Some k) = Inl InvalidCitekey) \<longleftrightarrow>
            k \<noteq> str2citekey nfkd (Some k)) \<and>
         ((\<exists>p. Paper_init nfkd be md (Some k) = Inr p \<and> citekey p = Some k) \<longleftrightarrow>
            k = str2citekey nfkd (Some k)) \<and>
         Paper_init nfkd be md (Some (uni ''a@b'')) = Inl InvalidCitekey \<and>
         (\<exists>p. Paper_init nfkd be md (Some (uni ''ab2020'')) = Inr p \<and>
              citekey p = Some (uni ''ab2020''))"
proof -
  have iff: "(Paper_init nfkd be md (Some k) = Inl InvalidCitekey) \<longleftrightarrow>
               k \<noteq> str2citekey nfkd (Some k)" for k
    by (simp add: Paper_init_def unicode_def Let_def)
  have ok: "(\<exists>p. Paper_init nfkd be md (Some k) = Inr p \<and> citekey p = Some k) \<longleftrightarrow>
              k = str2citekey nfkd (Some k)" for k
    by (auto simp: Paper_init_def unicode_def Let_def)
  have "64 \<in> set (uni ''a@b'')" by (simp add: uni_def)
  moreover have "64 \<notin> set (str2citekey nfkd (Some (uni ''a@b'')))"
    using str2citekey_set[of 64 nfkd] by (auto simp: CITEKEY_EXCLUDE_RE_iff)
  ultimately have bad: "uni ''a@b'' \<noteq> str2citekey nfkd (Some (uni ''a@b''))" by metis
  have "\<forall>c \<in> set (unicode (Some (uni ''ab2020''))). c < 128 \<and> \<not> CITEKEY_EXCLUDE_RE c"
    by (simp add: unicode_def uni_def CITEKEY_EXCLUDE_RE_iff)
  from str2citekey_fixed[OF assms this]
  have good: "uni ''ab2020'' = str2citekey nfkd (Some (uni ''ab2020''))"
    by (simp add: unicode_def)
  show ?thesis
    using iff[of k] ok[of k] bad good iff[of "uni ''a@b''"] ok[of "uni ''ab2020''"] by blast
qed

theorem Paper_init_invalid_citekey_witness:
  "ascii_stable nfkd_fragment \<and>
   uni ''a/b'' \<noteq> str2citekey nfkd_fragment (Some (uni ''a/b'')) \<and>
   Paper_init nfkd_fragment None None (Some (uni ''a/b'')) = Inl InvalidCitekey \<and>
   Paper_init nfkd_fragment None None (Some (uni ''a@b'')) = Inl InvalidCitekey \<and>
   (\<exists>p. Paper_init nfkd_fragment None None (Some (uni ''ab2020'')) = Inr p \<and>
        citekey p = Some (uni ''ab2020''))"
proof -
  have "str2citekey nfkd_fragment (Some (uni ''a/b'')) = uni ''ab''"
    by (simp add: str2citekey_def unicode_def encode_ascii_ignore_def nfkd_fragment_def
        decompose_def CITEKEY_EXCLUDE_RE_iff uni_def)
  then have d: "uni ''a/b'' \<noteq> str2citekey nfkd_fragment (Some (uni ''a/b''))"
    by (simp add: uni_def)
  show ?thesis
    using Paper_init_invalid_citekey[OF nfkd_fragment_stable, of None None "uni ''a/b''"]
      nfkd_fragment_stable d
    by blast
qed

text \<open>
  C7. Saving a Paper whose citekey is unset fails with MissingCitekey, and the disc is
  as it was: neither writer has run, whatever the writers are.
\<close>

theorem save_to_disc_unset_citekey:
  "citekey p = None \<Longrightarrow>
     save_to_disc fs p bib_filepath meta_filepath d = (Inl MissingCitekey, d)"
  by (simp add: save_to_disc_def)

theorem save_to_disc_unset_citekey_witness:
  "citekey \<lparr>bibentry = entry0, metadata = BASE_META, citekey = None\<rparr> = None \<and>
   save_to_disc files_log \<lparr>bibentry = entry0, metadata = BASE_META, citekey = None\<rparr>
     (uni ''a.bib'') (uni ''a.yaml'') [] = (Inl MissingCitekey, []) \<and>
   save_to_disc files_log \<lparr>bibentry = entry0, metadata = BASE_META, citekey = Some (uni ''a'')\<rparr>
     (uni ''a.bib'') (uni ''a.yaml'') [] = (Inr (), [uni ''a.bib'', uni ''a.yaml''])"
proof -
  have w: "save_to_disc files_log \<lparr>bibentry = entry0, metadata = BASE_META, citekey = Some (uni ''a'')\<rparr>
     (uni ''a.bib'') (uni ''a.yaml'') [] = (Inr (), [uni ''a.bib'', uni ''a.yaml''])"
    by (simp add: save_to_disc_def files_log_def)
  show ?thesis
    using save_to_disc_unset_citekey[of "\<lparr>bibentry = entry0, metadata = BASE_META, citekey = None\<rparr>"
        files_log "uni ''a.bib''" "uni ''a.yaml''" "[]"] w
    by simp
qed

text \<open>
  C4. The author list is chosen if the entry has one, else the editor list; with neither,
  the failure is MissingAuthor. On a chosen list that is empty the code does not fail
  with MissingAuthor: the \<^verbatim>\<open>IndexError\<close> of \<^verbatim>\<open>[0]\<close> is not caught.
\<close>

theorem generate_citekey_empty_author_list:
  "generate_citekey nfkd
     \<lparr>bibentry = \<lparr>entry_type = DEFAULT_TYPE, entry_fields = Map.empty,
                  entry_persons = [''author'' \<mapsto> []]\<rparr>,
      metadata = BASE_META, citekey = None\<rparr>
   = Inl IndexError"
  by (simp add: generate_citekey_def)

text \<open>
  C8. The result is the one the specification describes: the field is split on colons,
  the first candidate that is not empty is returned, with a path separator in front
  unless it starts with one; an absent field, an empty field and a field of empty
  candidates fail with NoDocumentFile. The field \<open>files/a.pdf:files/b.pdf\<close> gives
  \<open>/files/a.pdf\<close>.
\<close>

theorem get_document_file_first_candidate:
  "fst (get_document_file_from_bibdata p remove) =
     extractEmbeddedDocument_spec (entry_fields (bibentry p) ''file'') \<and>
   (entry_fields (bibentry p) ''file'' = None \<longrightarrow>
      fst (get_document_file_from_bibdata p remove) = Inl NoDocumentFile) \<and>
   (entry_fields (bibentry p) ''file'' = Some [] \<longrightarrow>
      fst (get_document_file_from_bibdata p remove) = Inl NoDocumentFile) \<and>
   (\<forall>field. entry_fields (bibentry p) ''file'' = Some field \<and>
            (\<forall>c \<in> set (split colon field). c = []) \<longrightarrow>
      fst (get_document_file_from_bibdata p remove) = Inl NoDocumentFile) \<and>
   (\<forall>field c. entry_fields (bibentry p) ''file'' = Some field \<and>
              find (\<lambda>c. c \<noteq> []) (split colon field) = Some c \<longrightarrow>
      fst (get_document_file_from_bibdata p remove) =
        Inr (if hd c = slash then c else slash # c)) \<and>
   (entry_fields (bibentry p) ''file'' = Some (uni ''files/a.pdf:files/b.pdf'') \<longrightarrow>
      fst (get_document_file_from_bibdata p remove) = Inr (uni ''/files/a.pdf''))"
proof -
  let ?r = "fst (get_document_file_from_bibdata p remove)"
  let ?file = "entry_fields (bibentry p) ''file''"
  have r: "?r = extractEmbeddedDocument_spec ?file"
    by (rule get_document_file_refines)
  have absent: "?file = None \<longrightarrow> ?r = Inl NoDocumentFile"
    by (simp add: r extractEmbeddedDocument_spec_def)
  have empty: "?file = Some [] \<longrightarrow> ?r = Inl NoDocumentFile"
    by (simp add: r extractEmbeddedDocument_spec_def)
  have unusable: "\<forall>field. ?file = Some field \<and> (\<forall>c \<in> set (split colon field). c = []) \<longrightarrow>
                    ?r = Inl NoDocumentFile"
  proof (intro allI impI)
    fix field
    assume a: "?file = Some field \<and> (\<forall>c \<in> set (split colon field). c = [])"
    then have "find (\<lambda>c. c \<noteq> []) (split colon field) = None"
      by (simp add: find_nonempty_None)
    then show "?r = Inl NoDocumentFile"
      using a by (simp add: r extractEmbeddedDocument_spec_def)
  qed
  have first: "\<forall>field c. ?file = Some field \<and>
                 find (\<lambda>c. c \<noteq> []) (split colon field) = Some c \<longrightarrow>
                 ?r = Inr (if hd c = slash then c else slash # c)"
    by (simp add: r extractEmbeddedDocument_spec_def)
  have example: "?file = Some (uni ''files/a.pdf:files/b.pdf'') \<longrightarrow> ?r = Inr (uni ''/files/a.pdf'')"
    by (simp add: r extractEmbeddedDocument_spec_def uni_def colon_def slash_def)
  show ?thesis
    using r absent empty unusable first example by blast
qed

theorem get_document_file_first_candidate_witness:
  "fst (get_document_file_from_bibdata
          \<lparr>bibentry = entry0\<lparr>entry_fields := [''file'' \<mapsto> uni ''files/a.pdf:files/b.pdf'']\<rparr>,
           metadata = BASE_META, citekey = None\<rparr> False) = Inr (uni ''/files/a.pdf'') \<and>
   fst (get_document_file_from_bibdata
          \<lparr>bibentry = entry0, metadata = BASE_META, citekey = None\<rparr> False) = Inl NoDocumentFile \<and>
   fst (get_document_file_from_bibdata
          \<lparr>bibentry = entry0\<lparr>entry_fields := [''file'' \<mapsto> []]\<rparr>,
           metadata = BASE_META, citekey = None\<rparr> False) = Inl NoDocumentFile \<and>
   split colon (uni ''::'') = [[], [], []] \<and>
   fst (get_document_file_from_bibdata
          \<lparr>bibentry = entry0\<lparr>entry_fields := [''file'' \<mapsto> uni ''::'']\<rparr>,
           metadata = BASE_META, citekey = None\<rparr> False) = Inl NoDocumentFile \<and>
   find (\<lambda>c. c \<noteq> []) (split colon (uni '':/x.pdf:y'')) = Some (uni ''/x.pdf'') \<and>
   fst (get_document_file_from_bibdata
          \<lparr>bibentry = entry0\<lparr>entry_fields := [''file'' \<mapsto> uni '':/x.pdf:y'']\<rparr>,
           metadata = BASE_META, citekey = None\<rparr> False) = Inr (uni ''/x.pdf'')"
proof -
  let ?p = "\<lambda>fs. \<lparr>bibentry = entry0\<lparr>entry_fields := fs\<rparr>, metadata = BASE_META, citekey = None\<rparr>"
  let ?q = "\<lparr>bibentry = entry0, metadata = BASE_META, citekey = None\<rparr>"
  have fld: "entry_fields (bibentry (?p [''file'' \<mapsto> v])) ''file'' = Some v" for v
    by simp
  have fld0: "entry_fields (bibentry ?q) ''file'' = None"
    by (simp add: entry0_def Entry_init_def)
  have s: "split colon (uni ''::'') = [[], [], []]"
    by (simp add: uni_def colon_def)
  then have e: "\<forall>c \<in> set (split colon (uni ''::'')). c = []"
    by simp
  have f: "find (\<lambda>c. c \<noteq> []) (split colon (uni '':/x.pdf:y'')) = Some (uni ''/x.pdf'')"
    by (simp add: uni_def colon_def)
  have h: "hd (uni ''/x.pdf'') = slash"
    by (simp add: uni_def slash_def)
  have a: "fst (get_document_file_from_bibdata (?p [''file'' \<mapsto> uni ''files/a.pdf:files/b.pdf'']) False)
             = Inr (uni ''/files/a.pdf'')"
    using get_document_file_first_candidate
        [of "?p [''file'' \<mapsto> uni ''files/a.pdf:files/b.pdf'']" False] fld
    by blast
  have b: "fst (get_document_file_from_bibdata ?q False) = Inl NoDocumentFile"
    using get_document_file_first_candidate[of ?q False] fld0 by blast
  have c: "fst (get_document_file_from_bibdata (?p [''file'' \<mapsto> []]) False) = Inl NoDocumentFile"
    using get_document_file_first_candidate[of "?p [''file'' \<mapsto> []]" False] fld by blast
  have d: "fst (get_document_file_from_bibdata (?p [''file'' \<mapsto> uni ''::'']) False)
             = Inl NoDocumentFile"
    using get_document_file_first_candidate[of "?p [''file'' \<mapsto> uni ''::'']" False] fld e
    by blast
  have "fst (get_document_file_from_bibdata (?p [''file'' \<mapsto> uni '':/x.pdf:y'']) False)
             = Inr (if hd (uni ''/x.pdf'') = slash then uni ''/x.pdf'' else slash # uni ''/x.pdf'')"
    using get_document_file_first_candidate[of "?p [''file'' \<mapsto> uni '':/x.pdf:y'']" False] fld f
    by blast
  then have g: "fst (get_document_file_from_bibdata (?p [''file'' \<mapsto> uni '':/x.pdf:y'']) False)
             = Inr (uni ''/x.pdf'')"
    using h by simp
  show ?thesis
    using a b c d s f g by blast
qed

text \<open>
  C9. Constructing a Paper with no citekey succeeds, since \<^verbatim>\<open>unicode(None)\<close> is the
  string \<open>None\<close>, which is its own sanitized form; the Paper holds no citekey, and
  saving it fails with MissingCitekey.
\<close>

theorem Paper_init_absent_citekey:
  assumes "ascii_stable nfkd"
  shows "\<exists>p. Paper_init nfkd be md None = Inr p \<and> citekey p = None \<and>
             save_to_disc fs p bib_filepath meta_filepath d = (Inl MissingCitekey, d)"
proof -
  have "\<forall>c \<in> set (unicode None). c < 128 \<and> \<not> CITEKEY_EXCLUDE_RE c"
    by (simp add: unicode_def uni_def CITEKEY_EXCLUDE_RE_iff)
  from str2citekey_fixed[OF assms this]
  have "unicode None = str2citekey nfkd None" by simp
  then show ?thesis
    by (simp add: Paper_init_def Let_def save_to_disc_def)
qed

theorem Paper_init_absent_citekey_witness:
  "ascii_stable nfkd_fragment \<and>
   (\<exists>p. Paper_init nfkd_fragment None None None = Inr p \<and> citekey p = None \<and>
        save_to_disc files_log p (uni ''a.bib'') (uni ''a.yaml'') [] = (Inl MissingCitekey, []))"
  using Paper_init_absent_citekey[OF nfkd_fragment_stable, of None None files_log
      "uni ''a.bib''" "uni ''a.yaml''" "[]"] nfkd_fragment_stable
  by simp

text \<open>
  C10. With \<open>remove\<close> set, on a \<open>file\<close> field that is present and whose candidates are
  all empty, the call fails with NoDocumentFile and leaves a Paper whose entry has lost
  the field.
\<close>

theorem get_document_file_remove_not_atomic:
  assumes "entry_fields (bibentry p) ''file'' = Some field"
      and "\<forall>c \<in> set (split colon field). c = []"
  shows "get_document_file_from_bibdata p True = (Inl NoDocumentFile, pop_file p) \<and>
         entry_fields (bibentry (pop_file p)) ''file'' = None \<and>
         pop_file p \<noteq> p \<and>
         get_document_file_from_bibdata p False = (Inl NoDocumentFile, p)"
proof -
  have none: "find (\<lambda>c. c \<noteq> []) (split colon field) = None"
    using assms(2) by (simp add: find_nonempty_None)
  have call: "get_document_file_from_bibdata p remove =
                (Inl NoDocumentFile, if remove then pop_file p else p)" for remove
    using assms(1) none
    by (simp add: get_document_file_from_bibdata_def Let_def for_break_find split_not_Nil)
  have gone: "entry_fields (bibentry (pop_file p)) ''file'' = None"
    by (simp add: pop_file_def)
  then have "pop_file p \<noteq> p" using assms(1) by auto
  then show ?thesis using call[of True] call[of False] gone by simp
qed

theorem get_document_file_remove_not_atomic_witness:
  "entry_fields (bibentry \<lparr>bibentry = entry0\<lparr>entry_fields := [''file'' \<mapsto> uni ''::'']\<rparr>,
                           metadata = BASE_META, citekey = None\<rparr>) ''file'' = Some (uni ''::'') \<and>
   split colon (uni ''::'') = [[], [], []] \<and>
   fst (get_document_file_from_bibdata
          \<lparr>bibentry = entry0\<lparr>entry_fields := [''file'' \<mapsto> uni ''::'']\<rparr>,
           metadata = BASE_META, citekey = None\<rparr> True) = Inl NoDocumentFile \<and>
   entry_fields (bibentry (snd (get_document_file_from_bibdata
          \<lparr>bibentry = entry0\<lparr>entry_fields := [''file'' \<mapsto> uni ''::'']\<rparr>,
           metadata = BASE_META, citekey = None\<rparr> True))) ''file'' = None"
proof -
  let ?p = "\<lparr>bibentry = entry0\<lparr>entry_fields := [''file'' \<mapsto> uni ''::'']\<rparr>,
             metadata = BASE_META, citekey = None\<rparr>"
  have f: "entry_fields (bibentry ?p) ''file'' = Some (uni ''::'')"
    by simp
  have s: "split colon (uni ''::'') = [[], [], []]"
    by (simp add: uni_def colon_def)
  then have e: "\<forall>c \<in> set (split colon (uni ''::'')). c = []"
    by simp
  show ?thesis
    using get_document_file_remove_not_atomic[OF f e] f s by simp
qed

text \<open>
  C1. With a bib file absent and both a DOI and an ISBN given, the ISBN block runs after
  a DOI lookup that succeeded: both sources are asked, and the entry of the ISBN
  replaces the entry of the DOI, or the process exits with status 1 because the ISBN
  does not decode although the DOI did. With the DOI alone the entry of the DOI is
  returned.
\<close>

theorem isbn_block_after_successful_doi:
  "get_bibtex_entry env0
     (args0\<lparr>args_doi := Some (uni ''10.1000/182''), args_isbn := Some (uni ''0262033844'')\<rparr>)
     [] world0
   = (Ok (Some entry_isbn),
      \<lparr>rp_papers = [],
       trace = [Doi2bibtex (uni ''10.1000/182''), Isbn2bibtex (uni ''0262033844'')]\<rparr>) \<and>
   get_bibtex_entry (env0\<lparr>isbn2bibtex := (\<lambda>i. Inr (uni ''garbage''))\<rparr>)
     (args0\<lparr>args_doi := Some (uni ''10.1000/182''), args_isbn := Some (uni ''0262033844'')\<rparr>)
     [] world0
   = (SysExit 1,
      \<lparr>rp_papers = [],
       trace = [Doi2bibtex (uni ''10.1000/182''), Isbn2bibtex (uni ''0262033844''),
                UiError (InvalidIsbn (uni ''0262033844''))]\<rparr>) \<and>
   get_bibtex_entry env0 (args0\<lparr>args_doi := Some (uni ''10.1000/182'')\<rparr>) [] world0
   = (Ok (Some entry_doi), \<lparr>rp_papers = [], trace = [Doi2bibtex (uni ''10.1000/182'')]\<rparr>)"
  by (simp add: run_defs)

text \<open>
  C2. When the entry has been acquired and the caller gave a citekey that is in the
  repository or is not its own sanitized form, the command ends with exit status 1 and
  the repository is as before: on a collision the error is shown and the process exits,
  otherwise the construction of the Paper raises InvalidCitekey before anything is
  pushed.
\<close>

theorem explicit_citekey_rejected:
  assumes "get_bibtex_entry env a script w = (Ok b, w1)"
      and "args_citekey a = Some k"
      and "rp_contains (rp_papers w) k \<or> k \<noteq> str2citekey (normalize env) (Some k)"
  shows "command env a script w =
           (if rp_contains (rp_papers w) k
            then (SysExit 1, emit (UiError (CitekeyExists k)) w1)
            else (Uncaught InvalidCitekey, w1)) \<and>
         exit_status (fst (command env a script w)) = Some 1 \<and>
         rp_papers (snd (command env a script w)) = rp_papers w"
proof -
  have rp: "rp_papers w1 = rp_papers w"
    using get_bibtex_entry_rp[of env a script w] assms(1) by simp
  show ?thesis
  proof (cases "rp_contains (rp_papers w) k")
    case True
    then have "command env a script w = (SysExit 1, emit (UiError (CitekeyExists k)) w1)"
      using assms(1,2) rp by (simp add: command_def resolve_citekey_def)
    then show ?thesis
      using True rp by (simp add: exit_status_def emit_def)
  next
    case False
    then have "k \<noteq> str2citekey (normalize env) (Some k)"
      using assms(3) by simp
    then have "from_bibentry env b k = Inl InvalidCitekey"
      by (simp add: from_bibentry_def Paper_init_def unicode_def Let_def)
    then have "command env a script w = (Uncaught InvalidCitekey, w1)"
      using assms(1,2) rp False by (simp add: command_def resolve_citekey_def)
    then show ?thesis
      using False rp by (simp add: exit_status_def)
  qed
qed

theorem explicit_citekey_rejected_witness:
  "command env0 (args0\<lparr>args_doi := Some (uni ''10.1000/182''), args_citekey := Some (uni ''a@b'')\<rparr>)
     [] world0
   = (Uncaught InvalidCitekey, \<lparr>rp_papers = [], trace = [Doi2bibtex (uni ''10.1000/182'')]\<rparr>) \<and>
   command env0 (args0\<lparr>args_doi := Some (uni ''10.1000/182''), args_citekey := Some (uni ''key'')\<rparr>)
     [] \<lparr>rp_papers = [(\<lparr>bibentry = entry0, metadata = BASE_META, citekey = Some (uni ''key'')\<rparr>, None)],
         trace = []\<rparr>
   = (SysExit 1,
      \<lparr>rp_papers = [(\<lparr>bibentry = entry0, metadata = BASE_META, citekey = Some (uni ''key'')\<rparr>, None)],
       trace = [Doi2bibtex (uni ''10.1000/182''), UiError (CitekeyExists (uni ''key''))]\<rparr>)"
proof -
  let ?a = "\<lambda>k. args0\<lparr>args_doi := Some (uni ''10.1000/182''), args_citekey := Some k\<rparr>"
  let ?w = "\<lparr>rp_papers = [(\<lparr>bibentry = entry0, metadata = BASE_META,
                               citekey = Some (uni ''key'')\<rparr>, None)], trace = []\<rparr>"
  have g1: "get_bibtex_entry env0 (?a (uni ''a@b'')) [] world0
              = (Ok (Some entry_doi), \<lparr>rp_papers = [], trace = [Doi2bibtex (uni ''10.1000/182'')]\<rparr>)"
    by (simp add: run_defs)
  have k1: "args_citekey (?a (uni ''a@b'')) = Some (uni ''a@b'')"
    by simp
  have "str2citekey nfkd_fragment (Some (uni ''a@b'')) = uni ''ab''"
    by (simp add: str2citekey_def unicode_def encode_ascii_ignore_def nfkd_fragment_def
        decompose_def CITEKEY_EXCLUDE_RE_iff uni_def)
  then have "uni ''a@b'' \<noteq> str2citekey (normalize env0) (Some (uni ''a@b''))"
    by (simp add: env0_def uni_def)
  then have h1: "rp_contains (rp_papers world0) (uni ''a@b'') \<or>
                 uni ''a@b'' \<noteq> str2citekey (normalize env0) (Some (uni ''a@b''))"
    by simp
  have n1: "\<not> rp_contains (rp_papers world0) (uni ''a@b'')"
    by (simp add: rp_contains_def world0_def)
  have g2: "get_bibtex_entry env0 (?a (uni ''key'')) [] ?w
              = (Ok (Some entry_doi),
                 ?w\<lparr>trace := [Doi2bibtex (uni ''10.1000/182'')]\<rparr>)"
    by (simp add: run_defs)
  have k2: "args_citekey (?a (uni ''key'')) = Some (uni ''key'')"
    by simp
  have c2: "rp_contains (rp_papers ?w) (uni ''key'')"
    by (simp add: rp_contains_def)
  then have h2: "rp_contains (rp_papers ?w) (uni ''key'') \<or>
                 uni ''key'' \<noteq> str2citekey (normalize env0) (Some (uni ''key''))"
    by simp
  show ?thesis
    using explicit_citekey_rejected[OF g1 k1 h1] explicit_citekey_rejected[OF g2 k2 h2] n1 c2
    by (simp add: emit_def)
qed

text \<open>
  C3. On a bib file that does not decode, the error is shown and the entry stage
  returns, with no entry, instead of exiting: the citekey stage runs next and accepts
  an explicit citekey. The DOI path exits with status 1 on the same content.
\<close>

theorem invalid_bibfile_not_fatal:
  "get_bibtex_entry env0 (args0\<lparr>args_bibfile := Some (uni ''refs.bib'')\<rparr>) [] world0
   = (Ok None,
      \<lparr>rp_papers = [],
       trace = [GetContent (uni ''refs.bib''), UiError (InvalidBibfile (uni ''refs.bib''))]\<rparr>) \<and>
   resolve_citekey env0
     (args0\<lparr>args_bibfile := Some (uni ''refs.bib''), args_citekey := Some (uni ''Doe2021'')\<rparr>) None
     \<lparr>rp_papers = [],
      trace = [GetContent (uni ''refs.bib''), UiError (InvalidBibfile (uni ''refs.bib''))]\<rparr>
   = (Ok (uni ''Doe2021''),
      \<lparr>rp_papers = [],
       trace = [GetContent (uni ''refs.bib''), UiError (InvalidBibfile (uni ''refs.bib''))]\<rparr>) \<and>
   get_bibtex_entry (env0\<lparr>doi2bibtex := (\<lambda>d. Inr (uni ''garbage''))\<rparr>)
     (args0\<lparr>args_doi := Some (uni ''10.1000/182'')\<rparr>) [] world0
   = (SysExit 1,
      \<lparr>rp_papers = [],
       trace = [Doi2bibtex (uni ''10.1000/182''), UiError (InvalidDoi (uni ''10.1000/182''))]\<rparr>)"
  by (simp add: run_defs)

end
